theory Spec2Isabelle
  imports Complex_Main "HOL-Library.Signed_Division"
begin

section \<open>Caffeine tracker: data model\<close>

text \<open>
  The Go program keeps a list of intake events and estimates the caffeine left in the
  body by exponential decay with a half-life of five hours.

  Conventions of the embedding.
  \<^item> A \<^verbatim>\<open>time.Time\<close> is an instant in integer nanoseconds on one time line: the wall
    clock in the zone of the process, taken at a fixed offset from UTC, counted from a
    local midnight. The monotonic reading that \<^verbatim>\<open>time.Now\<close> attaches agrees with it.
  \<^item> A \<^verbatim>\<open>time.Duration\<close> is an integer number of nanoseconds in the range of a signed
    64-bit integer; \<^verbatim>\<open>Time.Sub\<close> saturates at the ends of that range, as the standard
    library documents.
  \<^item> A \<^verbatim>\<open>float64\<close> is a real number: the arithmetic is the exact one, without rounding,
    infinities or NaN. \<^verbatim>\<open>math.Pow(0.5, y)\<close> is \<open>0.5 powr y\<close>.
  \<^item> Every operation is modelled as it runs alone, and the clock reading of
    \<^verbatim>\<open>time.Now()\<close> is an explicit argument. The operations are given twice: first as
    functions of the event list alone, and then, for the lock discipline, over a state
    that has the mutex of the tracker as a field.
\<close>

type_synonym Time = int
type_synonym Duration = int

definition Second :: Duration where
  "Second = 1000000000"

definition Minute :: Duration where
  "Minute = 60 * Second"

definition Hour :: Duration where
  "Hour = 60 * Minute"

definition minDuration :: Duration where
  "minDuration = - (2 ^ 63)"

definition maxDuration :: Duration where
  "maxDuration = 2 ^ 63 - 1"

text \<open>\<^verbatim>\<open>t.Sub(u)\<close>: the difference, or the nearest end of the range when it does not fit.\<close>

definition Sub :: "Time \<Rightarrow> Time \<Rightarrow> Duration" where
  "Sub t u =
     (if minDuration \<le> t - u \<and> t - u \<le> maxDuration then t - u
      else if t < u then minDuration
      else maxDuration)"

text \<open>\<^verbatim>\<open>t.Add(d)\<close>.\<close>

definition Add :: "Time \<Rightarrow> Duration \<Rightarrow> Time" where
  "Add t d = t + d"

text \<open>
  \<^verbatim>\<open>d.Hours()\<close>: the standard library splits the duration with Go's truncating division,
  \<^verbatim>\<open>hour := d / Hour; nsec := d % Hour; return float64(hour) + float64(nsec)/(60*60*1e9)\<close>.
\<close>

definition Hours :: "Duration \<Rightarrow> real" where
  "Hours d = real_of_int (d sdiv Hour) + real_of_int (d smod Hour) / (60 * 60 * 1000000000)"

text \<open>
  \<^verbatim>\<open>t.Format("15:04")\<close>: the hour and the minute of the day, two digits each. The date and
  the seconds are not part of the layout.
\<close>

definition digit :: "int \<Rightarrow> char" where
  "digit n = ''0123456789'' ! nat n"

definition Format_1504 :: "Time \<Rightarrow> string" where
  "Format_1504 t =
     (let sec = t div Second;
          sod = sec mod 86400;
          h = sod div 3600;
          m = (sod mod 3600) div 60
      in [digit (h div 10), digit (h mod 10), CHR '':'', digit (m div 10), digit (m mod 10)])"

record CoffeeIntakeEvent =
  Time :: Time
  Amount :: real

text \<open>
  \<^verbatim>\<open>ForecastPoint\<close> has a field \<^verbatim>\<open>Time\<close> of its own; it is \<open>PointTime\<close> here, since the
  event's selector has the name already.
\<close>

record ForecastPoint =
  PointTime :: Time
  Caffeine :: real
  HasDrink :: bool
  DrinkAmount :: real

record Tracker =
  events :: "CoffeeIntakeEvent list"

definition NewTracker :: Tracker where
  "NewTracker = \<lparr>events = []\<rparr>"

section \<open>Operations\<close>

text \<open>\<^verbatim>\<open>AddDrink\<close>: appends an event stamped with the clock reading; the amount is not checked.\<close>

definition AddDrink :: "Tracker \<Rightarrow> Time \<Rightarrow> real \<Rightarrow> Tracker" where
  "AddDrink t now amount = t\<lparr>events := events t @ [\<lparr>Time = now, Amount = amount\<rparr>]\<rparr>"

text \<open>\<^verbatim>\<open>GetEvents\<close>.\<close>

definition GetEvents :: "Tracker \<Rightarrow> CoffeeIntakeEvent list" where
  "GetEvents t = events t"

text \<open>
  The loop of \<^verbatim>\<open>CalculateCaffeineLevelAt\<close> over the events, with the running total
  \<^verbatim>\<open>totalCaffeine\<close> as accumulator.
\<close>

fun level_at_loop :: "real \<Rightarrow> Time \<Rightarrow> CoffeeIntakeEvent list \<Rightarrow> real" where
  "level_at_loop totalCaffeine targetTime [] = totalCaffeine"
| "level_at_loop totalCaffeine targetTime (event # rest) =
     (let timeElapsed = Sub targetTime (Time event);
          timeElapsedHours = Hours timeElapsed
      in if timeElapsedHours < 0 then level_at_loop totalCaffeine targetTime rest
         else level_at_loop
                (totalCaffeine + Amount event * (0.5 powr (timeElapsedHours / 5.0)))
                targetTime rest)"

definition CalculateCaffeineLevelAt :: "Tracker \<Rightarrow> Time \<Rightarrow> real" where
  "CalculateCaffeineLevelAt t targetTime =
     (if length (events t) = 0 then 0.0
      else level_at_loop 0.0 targetTime (events t))"

text \<open>
  \<^verbatim>\<open>CalculateCurrentCaffeineLevel\<close> of \<^verbatim>\<open>caffeine_tracker.go\<close>: the same loop against the
  clock reading, with the half-life as the named constant. The earlier variant of the
  program with \<^verbatim>\<open>AddDrink\<close> has the same function with the literal \<^verbatim>\<open>5.0\<close> in its place.
\<close>

definition halfLifeHours :: real where
  "halfLifeHours = 5.0"

definition caffeinePerCupMg :: real where
  "caffeinePerCupMg = 95.0"

fun current_level_loop :: "real \<Rightarrow> Time \<Rightarrow> CoffeeIntakeEvent list \<Rightarrow> real" where
  "current_level_loop totalCaffeine now [] = totalCaffeine"
| "current_level_loop totalCaffeine now (event # rest) =
     (let timeElapsed = Sub now (Time event);
          timeElapsedHours = Hours timeElapsed
      in if timeElapsedHours < 0 then current_level_loop totalCaffeine now rest
         else current_level_loop
                (totalCaffeine + Amount event * (0.5 powr (timeElapsedHours / halfLifeHours)))
                now rest)"

definition CalculateCurrentCaffeineLevel :: "Tracker \<Rightarrow> Time \<Rightarrow> real" where
  "CalculateCurrentCaffeineLevel t now =
     (if length (events t) = 0 then 0.0
      else current_level_loop 0.0 now (events t))"

text \<open>\<^verbatim>\<open>AddCoffee\<close> of \<^verbatim>\<open>caffeine_tracker.go\<close>: one cup of the fixed amount.\<close>

definition AddCoffee :: "Tracker \<Rightarrow> Time \<Rightarrow> Tracker" where
  "AddCoffee t now = t\<lparr>events := events t @ [\<lparr>Time = now, Amount = caffeinePerCupMg\<rparr>]\<rparr>"

text \<open>
  The inner loop of \<^verbatim>\<open>GenerateForecast\<close>: the first event whose \<^verbatim>\<open>Format("15:04")\<close> is
  that of the sample time sets \<^verbatim>\<open>hasDrink\<close> and \<^verbatim>\<open>drinkAmount\<close> and ends the search;
  otherwise both keep their zero values.
\<close>

fun drink_at :: "CoffeeIntakeEvent list \<Rightarrow> Time \<Rightarrow> bool \<times> real" where
  "drink_at [] targetTime = (False, 0)"
| "drink_at (event # rest) targetTime =
     (if Format_1504 (Time event) = Format_1504 targetTime then (True, Amount event)
      else drink_at rest targetTime)"

definition forecast_point :: "Tracker \<Rightarrow> Time \<Rightarrow> int \<Rightarrow> ForecastPoint" where
  "forecast_point t now i =
     (let targetTime = Add now ((i * 30) * Minute);
          caffeine = CalculateCaffeineLevelAt t targetTime;
          (hasDrink, drinkAmount) = drink_at (events t) targetTime
      in \<lparr>PointTime = targetTime, Caffeine = caffeine,
          HasDrink = hasDrink, DrinkAmount = drinkAmount\<rparr>)"

text \<open>
  The outer loop, \<^verbatim>\<open>for i := 0; i < 48; i++\<close>, appending one point per round. The
  offset \<^verbatim>\<open>time.Duration(i*30) * time.Minute\<close> is at most \<open>1410 * Minute\<close>, far inside
  the range of a duration, so the product is the exact one.
\<close>

function forecast_loop :: "Tracker \<Rightarrow> Time \<Rightarrow> int \<Rightarrow> ForecastPoint list \<Rightarrow> ForecastPoint list" where
  "forecast_loop t now i forecast =
     (if i < 48 then forecast_loop t now (i + 1) (forecast @ [forecast_point t now i])
      else forecast)"
  by pat_completeness auto
termination
  by (relation "measure (\<lambda>(t, now, i, forecast). nat (48 - i))") auto

declare forecast_loop.simps [simp del]

definition GenerateForecast :: "Tracker \<Rightarrow> Time \<Rightarrow> ForecastPoint list" where
  "GenerateForecast t now = forecast_loop t now 0 []"

section \<open>The decay law of the specification\<close>

text \<open>
  \<open>hoursBetween t t0\<close> names the source's expression \<^verbatim>\<open>t.Sub(t0).Hours()\<close>.
\<close>

definition hoursBetween :: "Time \<Rightarrow> Time \<Rightarrow> real" where
  "hoursBetween t t0 = Hours (Sub t t0)"

text \<open>
  The residual contribution of one event as the specification words it, to be compared
  with what the loops of the source add to their running total: nothing when the elapsed
  hours are negative, and otherwise the dose times one half to the power of the elapsed
  hours over the half-life of five hours.
\<close>

definition contribution :: "CoffeeIntakeEvent \<Rightarrow> Time \<Rightarrow> real" where
  "contribution e t =
     (let elapsedHours = hoursBetween t (Time e)
      in if elapsedHours < 0 then 0 else Amount e * 0.5 powr (elapsedHours / 5.0))"

text \<open>
  The side condition of the monotonicity property, in the words of the specification:
  both query times lie strictly between the timestamps of two events \<open>a\<close> and \<open>b\<close>
  that are consecutive, that is, no event has its timestamp strictly between theirs.
\<close>

definition between_consecutive_doses :: "CoffeeIntakeEvent list \<Rightarrow> Time \<Rightarrow> Time \<Rightarrow> bool" where
  "between_consecutive_doses es t1 t2 =
     (\<exists>a\<in>set es. \<exists>b\<in>set es.
        Time a < t1 \<and> t2 < Time b \<and> (\<forall>e\<in>set es. \<not> (Time a < Time e \<and> Time e < Time b)))"

text \<open>
  A timestamp truncated to minute resolution, in the words of the specification: the
  start of the minute the instant lies in.
\<close>

definition Truncate_Minute :: "Time \<Rightarrow> Time" where
  "Truncate_Minute t = t - t mod Minute"

text \<open>The minute of the day of an instant, from 0 to 1439: what the clock string shows.\<close>

definition minute_of_day :: "Time \<Rightarrow> int" where
  "minute_of_day t = (t div Minute) mod 1440"

section \<open>The operations under the mutex\<close>

text \<open>
  \<^verbatim>\<open>sync.Mutex\<close>: \<^verbatim>\<open>Lock\<close> on a held mutex never returns when the operation runs
  alone, and \<^verbatim>\<open>Unlock\<close> of a mutex that is not held is a fatal error.
\<close>

datatype fault = Deadlock | UnlockOfUnlockedMutex

text \<open>
  What an operation does to or beside the shared slice \<^verbatim>\<open>t.events\<close>: a read of it (its
  length, its header for a \<^verbatim>\<open>range\<close>, one of its elements, or the slice returned), the
  assignment of the appended slice, one decay computation of the level loop, and the
  \<^verbatim>\<open>fmt.Printf\<close> of \<^verbatim>\<open>AddDrink\<close>.
\<close>

datatype action = ReadEvents | WriteEvents | DecayStep | Print

text \<open>
  The tracker with its mutex: \<open>mu\<close> is true while the mutex is held. The \<open>trace\<close> is a
  ghost field: it lists the actions in the order they happen, each with the value of
  \<open>mu\<close> at that moment.
\<close>

record MuTracker =
  mu :: bool
  tracker :: Tracker
  trace :: "(action \<times> bool) list"

definition Lock :: "MuTracker \<Rightarrow> fault + MuTracker" where
  "Lock s = (if mu s then Inl Deadlock else Inr (s\<lparr>mu := True\<rparr>))"

definition Unlock :: "MuTracker \<Rightarrow> fault + MuTracker" where
  "Unlock s = (if mu s then Inr (s\<lparr>mu := False\<rparr>) else Inl UnlockOfUnlockedMutex)"

text \<open>Appends an action to the ghost trace, with the mutex as it is now.\<close>

definition emit :: "action \<Rightarrow> MuTracker \<Rightarrow> MuTracker" where
  "emit a s = s\<lparr>trace := trace s @ [(a, mu s)]\<rparr>"

text \<open>
  The frame \<^verbatim>\<open>t.mu.Lock(); defer t.mu.Unlock()\<close> around a body: the deferred unlock runs
  after the body has produced the result.
\<close>

definition locked :: "(MuTracker \<Rightarrow> 'a \<times> MuTracker) \<Rightarrow> MuTracker \<Rightarrow> fault + 'a \<times> MuTracker" where
  "locked body s =
     (case Lock s of
        Inl f \<Rightarrow> Inl f
      | Inr s1 \<Rightarrow>
          (let (r, s2) = body s1
           in case Unlock s2 of Inl f \<Rightarrow> Inl f | Inr s3 \<Rightarrow> Inr (r, s3)))"

text \<open>
  \<^verbatim>\<open>AddDrink\<close>: the append reads the slice and assigns the result; the \<^verbatim>\<open>Printf\<close> that
  follows reads the length.
\<close>

definition AddDrink_body :: "Time \<Rightarrow> real \<Rightarrow> MuTracker \<Rightarrow> unit \<times> MuTracker" where
  "AddDrink_body now amount s =
     (let event = \<lparr>Time = now, Amount = amount\<rparr>;
          s1 = emit WriteEvents (emit ReadEvents s);
          s2 = s1\<lparr>tracker := (tracker s1)\<lparr>events := events (tracker s1) @ [event]\<rparr>\<rparr>;
          s3 = emit Print (emit ReadEvents s2)
      in ((), s3))"

definition AddDrink_mu :: "MuTracker \<Rightarrow> Time \<Rightarrow> real \<Rightarrow> fault + unit \<times> MuTracker" where
  "AddDrink_mu s now amount = locked (AddDrink_body now amount) s"

text \<open>
  \<^verbatim>\<open>CalculateCaffeineLevelAt\<close>: the length test, the header read by \<^verbatim>\<open>range\<close>, and for
  each event the read of the element and, unless it is skipped, its decay computation.
\<close>

fun level_at_loop_mu :: "real \<Rightarrow> Time \<Rightarrow> CoffeeIntakeEvent list \<Rightarrow> MuTracker \<Rightarrow> real \<times> MuTracker" where
  "level_at_loop_mu totalCaffeine targetTime [] s = (totalCaffeine, s)"
| "level_at_loop_mu totalCaffeine targetTime (event # rest) s =
     (let s1 = emit ReadEvents s;
          timeElapsed = Sub targetTime (Time event);
          timeElapsedHours = Hours timeElapsed
      in if timeElapsedHours < 0 then level_at_loop_mu totalCaffeine targetTime rest s1
         else level_at_loop_mu
                (totalCaffeine + Amount event * (0.5 powr (timeElapsedHours / 5.0)))
                targetTime rest (emit DecayStep s1))"

definition CalculateCaffeineLevelAt_body :: "Time \<Rightarrow> MuTracker \<Rightarrow> real \<times> MuTracker" where
  "CalculateCaffeineLevelAt_body targetTime s =
     (let s1 = emit ReadEvents s
      in if length (events (tracker s1)) = 0 then (0.0, s1)
         else level_at_loop_mu 0.0 targetTime (events (tracker s1)) (emit ReadEvents s1))"

definition CalculateCaffeineLevelAt_mu :: "MuTracker \<Rightarrow> Time \<Rightarrow> fault + real \<times> MuTracker" where
  "CalculateCaffeineLevelAt_mu s targetTime = locked (CalculateCaffeineLevelAt_body targetTime) s"

text \<open>
  \<^verbatim>\<open>GetEvents\<close> returns the slice itself, not a copy. That the caller then shares the
  backing array is not visible in a model of values.
\<close>

definition GetEvents_body :: "MuTracker \<Rightarrow> CoffeeIntakeEvent list \<times> MuTracker" where
  "GetEvents_body s = (let s1 = emit ReadEvents s in (events (tracker s1), s1))"

definition GetEvents_mu :: "MuTracker \<Rightarrow> fault + CoffeeIntakeEvent list \<times> MuTracker" where
  "GetEvents_mu s = locked GetEvents_body s"

text \<open>
  \<^verbatim>\<open>GenerateForecast\<close> takes no lock of its own: each round calls
  \<^verbatim>\<open>CalculateCaffeineLevelAt\<close>, which locks and unlocks, and then ranges over
  \<^verbatim>\<open>t.events\<close> for the drink flag.
\<close>

fun drink_at_mu :: "CoffeeIntakeEvent list \<Rightarrow> Time \<Rightarrow> MuTracker \<Rightarrow> (bool \<times> real) \<times> MuTracker" where
  "drink_at_mu [] targetTime s = ((False, 0), s)"
| "drink_at_mu (event # rest) targetTime s =
     (let s1 = emit ReadEvents s
      in if Format_1504 (Time event) = Format_1504 targetTime then ((True, Amount event), s1)
         else drink_at_mu rest targetTime s1)"

definition forecast_point_mu :: "MuTracker \<Rightarrow> Time \<Rightarrow> int \<Rightarrow> fault + ForecastPoint \<times> MuTracker" where
  "forecast_point_mu s now i =
     (let targetTime = Add now ((i * 30) * Minute)
      in case CalculateCaffeineLevelAt_mu s targetTime of
           Inl f \<Rightarrow> Inl f
         | Inr (caffeine, s1) \<Rightarrow>
             (let s2 = emit ReadEvents s1;
                  ((hasDrink, drinkAmount), s3) = drink_at_mu (events (tracker s2)) targetTime s2
              in Inr (\<lparr>PointTime = targetTime, Caffeine = caffeine,
                       HasDrink = hasDrink, DrinkAmount = drinkAmount\<rparr>, s3)))"

function forecast_loop_mu ::
  "MuTracker \<Rightarrow> Time \<Rightarrow> int \<Rightarrow> ForecastPoint list \<Rightarrow> fault + ForecastPoint list \<times> MuTracker" where
  "forecast_loop_mu s now i forecast =
     (if i < 48 then
        (case forecast_point_mu s now i of
           Inl f \<Rightarrow> Inl f
         | Inr (p, s1) \<Rightarrow> forecast_loop_mu s1 now (i + 1) (forecast @ [p]))
      else Inr (forecast, s))"
  by pat_completeness auto
termination
  by (relation "measure (\<lambda>(s, now, i, forecast). nat (48 - i))") auto

declare forecast_loop_mu.simps [simp del]

definition GenerateForecast_mu :: "MuTracker \<Rightarrow> Time \<Rightarrow> fault + ForecastPoint list \<times> MuTracker" where
  "GenerateForecast_mu s now = forecast_loop_mu s now 0 []"

text \<open>
  The lock discipline in the words of the specification, read on a trace: every read and
  every mutation of the event sequence happens with the mutex held, and everything else
  (the decay computation, the printing) happens with the mutex released.
\<close>

definition lock_discipline :: "(action \<times> bool) list \<Rightarrow> bool" where
  "lock_discipline tr =
     list_all (\<lambda>(a, held). if a = ReadEvents \<or> a = WriteEvents then held else \<not> held) tr"

text \<open>The actions of the level loop over a list of events, all under the mutex.\<close>

fun level_trace :: "Time \<Rightarrow> CoffeeIntakeEvent list \<Rightarrow> (action \<times> bool) list" where
  "level_trace t [] = []"
| "level_trace t (e # es) =
     (if t < Time e then [(ReadEvents, True)] else [(ReadEvents, True), (DecayStep, True)]) @ level_trace t es"

text \<open>\<^verbatim>\<open>NewTracker\<close>: the zero value of the mutex is a released mutex.\<close>

definition NewTracker_mu :: MuTracker where
  "NewTracker_mu = \<lparr>mu = False, tracker = NewTracker, trace = []\<rparr>"

section \<open>Durations and hours\<close>

lemma Second_pos: "0 < Second"
  by (simp add: Second_def)

lemma Minute_pos: "0 < Minute"
  by (simp add: Minute_def Second_def)

lemma Hour_value: "Hour = 3600000000000"
  by (simp add: Hour_def Minute_def Second_def)

lemma Hours_eq: "Hours d = real_of_int d / 3600000000000"
proof -
  have "d sdiv Hour * Hour + d smod Hour = d"
    by (rule sdiv_mult_smod_eq)
  then have "real_of_int d = real_of_int (d sdiv Hour) * real_of_int Hour + real_of_int (d smod Hour)"
    by (metis of_int_add of_int_mult)
  then show ?thesis
    by (simp add: Hours_def Hour_value field_simps)
qed

lemma Hours_neg_iff: "Hours d < 0 \<longleftrightarrow> d < 0"
  by (simp add: Hours_eq)

lemma Hours_mono: "d1 \<le> d2 \<Longrightarrow> Hours d1 \<le> Hours d2"
  by (simp add: Hours_eq divide_right_mono)

lemma Sub_neg_iff: "Sub t u < 0 \<longleftrightarrow> t < u"
  by (auto simp: Sub_def minDuration_def maxDuration_def)

lemma Sub_mono: "t1 \<le> t2 \<Longrightarrow> Sub t1 u \<le> Sub t2 u"
  by (auto simp: Sub_def minDuration_def maxDuration_def)

lemma Sub_exact: "minDuration \<le> t - u \<Longrightarrow> t - u \<le> maxDuration \<Longrightarrow> Sub t u = t - u"
  by (simp add: Sub_def)

lemma hoursBetween_neg_iff: "hoursBetween t t0 < 0 \<longleftrightarrow> t < t0"
  by (simp add: hoursBetween_def Hours_neg_iff Sub_neg_iff)

lemma hoursBetween_mono: "t1 \<le> t2 \<Longrightarrow> hoursBetween t1 t0 \<le> hoursBetween t2 t0"
  by (simp add: hoursBetween_def Hours_mono Sub_mono)

text \<open>Within the range of a duration the hours are the exact quotient.\<close>

lemma hoursBetween_exact:
  "minDuration \<le> t - t0 \<Longrightarrow> t - t0 \<le> maxDuration \<Longrightarrow>
   hoursBetween t t0 = real_of_int (t - t0) / 3600000000000"
  by (simp add: hoursBetween_def Sub_exact Hours_eq)

lemma hoursBetween_same: "hoursBetween t t = 0"
  by (simp add: hoursBetween_def Sub_def Hours_eq minDuration_def maxDuration_def)

lemma hoursBetween_Add_Hours:
  "0 \<le> n \<Longrightarrow> n \<le> 24 \<Longrightarrow> hoursBetween (Add t0 (n * Hour)) t0 = real_of_int n"
  by (simp add: hoursBetween_def Add_def Sub_def Hours_eq Hour_value minDuration_def maxDuration_def)

section \<open>The level loops as sums\<close>

lemma level_at_loop_sum:
  "level_at_loop tot t es = tot + (\<Sum>e\<leftarrow>es. contribution e t)"
  by (induction es arbitrary: tot) (simp_all add: contribution_def hoursBetween_def Let_def)

lemma current_level_loop_sum:
  "current_level_loop tot t es = tot + (\<Sum>e\<leftarrow>es. contribution e t)"
  by (induction es arbitrary: tot)
     (simp_all add: contribution_def hoursBetween_def Let_def halfLifeHours_def)

lemma CalculateCaffeineLevelAt_sum:
  "CalculateCaffeineLevelAt tr t = (\<Sum>e\<leftarrow>events tr. contribution e t)"
  by (simp add: CalculateCaffeineLevelAt_def level_at_loop_sum)

lemma CalculateCurrentCaffeineLevel_sum:
  "CalculateCurrentCaffeineLevel tr t = (\<Sum>e\<leftarrow>events tr. contribution e t)"
  by (simp add: CalculateCurrentCaffeineLevel_def current_level_loop_sum)

lemma contribution_past:
  "Time e \<le> t \<Longrightarrow> contribution e t = Amount e * 0.5 powr (hoursBetween t (Time e) / 5.0)"
  by (simp add: contribution_def Let_def hoursBetween_neg_iff)

lemma contribution_future: "t < Time e \<Longrightarrow> contribution e t = 0"
  by (simp add: contribution_def Let_def hoursBetween_neg_iff)

lemma contribution_nonneg: "0 \<le> Amount e \<Longrightarrow> 0 \<le> contribution e t"
  by (simp add: contribution_def Let_def)

text \<open>
  A non-negative dose decays: its contribution does not grow from \<open>t1\<close> to a later
  \<open>t2\<close>, unless the dose is taken in between.
\<close>

lemma contribution_antimono:
  assumes "0 \<le> Amount e" and "t1 \<le> t2" and "Time e \<le> t1 \<or> t2 < Time e"
  shows "contribution e t2 \<le> contribution e t1"
proof (cases "Time e \<le> t1")
  case True
  have "hoursBetween t1 (Time e) / 5 \<le> hoursBetween t2 (Time e) / 5"
    using assms(2) by (simp add: hoursBetween_mono)
  then have "(0.5::real) powr (hoursBetween t2 (Time e) / 5) \<le> 0.5 powr (hoursBetween t1 (Time e) / 5)"
    by (intro powr_mono') simp_all
  then show ?thesis
    using True assms(1,2) by (simp add: contribution_past mult_left_mono)
next
  case False
  then show ?thesis
    using assms by (simp add: contribution_future)
qed

section \<open>The forecast loop\<close>

lemma forecast_loop_eq:
  "forecast_loop tr now i acc = acc @ map (forecast_point tr now) [i..47]"
proof (induction tr now i acc rule: forecast_loop.induct)
  case (1 t now i forecast)
  show ?case
  proof (cases "i < 48")
    case True
    then have "[i..47] = i # [i + 1..47]"
      by (simp add: upto_rec1)
    with True "1.IH" show ?thesis
      by (subst forecast_loop.simps) simp
  next
    case False
    then show ?thesis
      by (subst forecast_loop.simps) simp
  qed
qed

lemma GenerateForecast_eq:
  "GenerateForecast tr now = map (forecast_point tr now) [0..47]"
  unfolding GenerateForecast_def forecast_loop_eq by (simp only: append_Nil)

lemma GenerateForecast_length: "length (GenerateForecast tr now) = 48"
  by (simp only: GenerateForecast_eq length_map length_upto)

lemma GenerateForecast_nth:
  assumes "i < 48"
  shows "GenerateForecast tr now ! i = forecast_point tr now (int i)"
proof -
  have len: "i < length [0..47::int]"
    using assms by simp
  have "[0..47::int] ! i = 0 + int i"
    by (rule nth_upto) (use assms in simp)
  then show ?thesis
    by (simp only: GenerateForecast_eq nth_map [OF len] add_0)
qed

lemma PointTime_forecast_point:
  "PointTime (forecast_point tr now i) = Add now ((i * 30) * Minute)"
  by (simp add: forecast_point_def Let_def split: prod.split)

lemma Caffeine_forecast_point:
  "Caffeine (forecast_point tr now i) = CalculateCaffeineLevelAt tr (Add now ((i * 30) * Minute))"
  by (simp add: forecast_point_def Let_def split: prod.split)

lemma HasDrink_forecast_point:
  "HasDrink (forecast_point tr now i) = fst (drink_at (events tr) (Add now ((i * 30) * Minute)))"
  by (simp add: forecast_point_def Let_def split: prod.split)

lemma DrinkAmount_forecast_point:
  "DrinkAmount (forecast_point tr now i) = snd (drink_at (events tr) (Add now ((i * 30) * Minute)))"
  by (simp add: forecast_point_def Let_def split: prod.split)

text \<open>The search for a drink is a search for the first event with the same clock string.\<close>

lemma drink_at_find:
  "drink_at es target =
     (case find (\<lambda>e. Format_1504 (Time e) = Format_1504 target) es of
        None \<Rightarrow> (False, 0)
      | Some e \<Rightarrow> (True, Amount e))"
  by (induction es) simp_all

lemma Format_1504_of_seconds:
  "t div Second = s \<Longrightarrow> s mod 86400 = sod \<Longrightarrow> sod div 3600 = h \<Longrightarrow> (sod mod 3600) div 60 = m \<Longrightarrow>
   Format_1504 t = [digit (h div 10), digit (h mod 10), CHR '':'', digit (m div 10), digit (m mod 10)]"
  unfolding Format_1504_def Let_def by (simp only:)

section \<open>The clock string\<close>

text \<open>Two clock strings are equal exactly when the minutes of the day are.\<close>

lemma digit_inj:
  assumes "0 \<le> n" "n \<le> 9" "0 \<le> k" "k \<le> 9" "digit n = digit k"
  shows "n = k"
proof -
  have "distinct ''0123456789''"
    by simp
  moreover have "nat n < length ''0123456789''" "nat k < length ''0123456789''"
    using assms(1-4) by simp_all
  ultimately have "nat n = nat k"
    using assms(5) unfolding digit_def by (simp only: nth_eq_iff_index_eq)
  then show ?thesis
    using assms(1,3) by simp
qed

lemma two_digits_inj:
  assumes "0 \<le> a" "a < 100" "0 \<le> b" "b < 100"
    and "digit (a div 10) = digit (b div 10)" "digit (a mod 10) = digit (b mod 10)"
  shows "a = b"
proof -
  have "a div 10 = b div 10"
    using assms by (intro digit_inj) auto
  moreover have "a mod 10 = b mod 10"
    using assms by (intro digit_inj) auto
  ultimately show ?thesis
    by (metis mult_div_mod_eq)
qed

lemma mod_day_div_60: "s mod 86400 div 60 = s div 60 mod 1440" for s :: int
proof -
  have "s mod (60 * 1440) = 60 * (s div 60 mod 1440) + s mod 60"
    by (rule zmod_zmult2_eq) simp
  then have "s mod 86400 div 60 = (60 * (s div 60 mod 1440) + s mod 60) div 60"
    by simp
  also have "\<dots> = s div 60 mod 1440"
    by simp
  finally show ?thesis .
qed

lemma div_Minute: "t div Minute = t div Second div 60"
proof -
  have "t div (Second * 60) = t div Second div 60"
    by (rule zdiv_zmult2_eq) simp
  then show ?thesis
    by (simp add: Minute_def mult.commute)
qed

lemma minute_of_day_eq: "minute_of_day t = (t div Second) mod 86400 div 60"
  by (simp add: minute_of_day_def div_Minute mod_day_div_60)

lemma Format_1504_eq_iff:
  "Format_1504 t = Format_1504 u \<longleftrightarrow> minute_of_day t = minute_of_day u"
proof -
  define st where "st = (t div Second) mod 86400"
  define su where "su = (u div Second) mod 86400"
  have rt: "0 \<le> st" "st < 86400" and ru: "0 \<le> su" "su < 86400"
    by (simp_all add: st_def su_def)
  have ft: "Format_1504 t = [digit (st div 3600 div 10), digit (st div 3600 mod 10), CHR '':'',
       digit (st mod 3600 div 60 div 10), digit (st mod 3600 div 60 mod 10)]"
    by (rule Format_1504_of_seconds [OF refl]) (simp_all add: st_def)
  have fu: "Format_1504 u = [digit (su div 3600 div 10), digit (su div 3600 mod 10), CHR '':'',
       digit (su mod 3600 div 60 div 10), digit (su mod 3600 div 60 mod 10)]"
    by (rule Format_1504_of_seconds [OF refl]) (simp_all add: su_def)
  have ht: "0 \<le> st div 3600" "st div 3600 < 100" "0 \<le> st mod 3600 div 60" "st mod 3600 div 60 < 100"
    using rt by simp_all
  have hu: "0 \<le> su div 3600" "su div 3600 < 100" "0 \<le> su mod 3600 div 60" "su mod 3600 div 60 < 100"
    using ru by simp_all
  have hm: "s div 3600 = s div 60 div 60" "s mod 3600 div 60 = s div 60 mod 60" for s :: int
  proof -
    show "s div 3600 = s div 60 div 60"
      using zdiv_zmult2_eq [of 60 s 60] by simp
    have "s mod (60 * 60) = 60 * (s div 60 mod 60) + s mod 60"
      by (rule zmod_zmult2_eq) simp
    then have "s mod 3600 div 60 = (60 * (s div 60 mod 60) + s mod 60) div 60"
      by simp
    then show "s mod 3600 div 60 = s div 60 mod 60"
      by simp
  qed
  have "Format_1504 t = Format_1504 u \<longleftrightarrow>
        st div 3600 = su div 3600 \<and> st mod 3600 div 60 = su mod 3600 div 60"
  proof
    assume "Format_1504 t = Format_1504 u"
    then have d: "digit (st div 3600 div 10) = digit (su div 3600 div 10)"
        "digit (st div 3600 mod 10) = digit (su div 3600 mod 10)"
        "digit (st mod 3600 div 60 div 10) = digit (su mod 3600 div 60 div 10)"
        "digit (st mod 3600 div 60 mod 10) = digit (su mod 3600 div 60 mod 10)"
      unfolding ft fu by (simp_all only: list.inject)
    show "st div 3600 = su div 3600 \<and> st mod 3600 div 60 = su mod 3600 div 60"
      using two_digits_inj [OF ht(1,2) hu(1,2) d(1,2)] two_digits_inj [OF ht(3,4) hu(3,4) d(3,4)]
      by (rule conjI)
  next
    assume "st div 3600 = su div 3600 \<and> st mod 3600 div 60 = su mod 3600 div 60"
    then show "Format_1504 t = Format_1504 u"
      unfolding ft fu by (simp only:)
  qed
  also have "\<dots> \<longleftrightarrow> st div 60 = su div 60"
    unfolding hm by (metis mult_div_mod_eq)
  finally show ?thesis
    by (simp add: minute_of_day_eq st_def su_def)
qed

text \<open>
  So a forecast point is flagged exactly when some event shows the same minute of the
  day as the sample time, on whatever date.
\<close>

lemma drink_at_flag:
  "fst (drink_at es target) \<longleftrightarrow> (\<exists>e\<in>set es. minute_of_day (Time e) = minute_of_day target)"
  by (induction es) (simp_all add: Format_1504_eq_iff)

lemma HasDrink_forecast_point_iff:
  "HasDrink (forecast_point tr now i) \<longleftrightarrow>
     (\<exists>e\<in>set (events tr). minute_of_day (Time e) = minute_of_day (Add now ((i * 30) * Minute)))"
  by (simp only: HasDrink_forecast_point drink_at_flag)

section \<open>The mutex and the ghost trace\<close>

text \<open>
  Run from a released mutex, the operations over the state with the mutex return what
  the operations over the event list return; the lemmas give the trace they leave.
\<close>

lemma AddDrink_mu_eq:
  "\<not> mu s \<Longrightarrow> AddDrink_mu s now amount =
     Inr ((), s\<lparr>tracker := AddDrink (tracker s) now amount,
                trace := trace s @ [(ReadEvents, True), (WriteEvents, True), (ReadEvents, True), (Print, True)]\<rparr>)"
  by (simp add: AddDrink_mu_def locked_def Lock_def Unlock_def AddDrink_body_def emit_def AddDrink_def Let_def)

lemma GetEvents_mu_eq:
  "\<not> mu s \<Longrightarrow> GetEvents_mu s =
     Inr (GetEvents (tracker s), s\<lparr>trace := trace s @ [(ReadEvents, True)]\<rparr>)"
  by (simp add: GetEvents_mu_def locked_def Lock_def Unlock_def GetEvents_body_def emit_def GetEvents_def Let_def)

lemma level_at_loop_mu_eq:
  "mu s \<Longrightarrow> level_at_loop_mu tot t es s = (level_at_loop tot t es, s\<lparr>trace := trace s @ level_trace t es\<rparr>)"
  by (induction es arbitrary: tot s) (simp_all add: Let_def emit_def Hours_neg_iff Sub_neg_iff)

lemma CalculateCaffeineLevelAt_mu_eq:
  "\<not> mu s \<Longrightarrow> CalculateCaffeineLevelAt_mu s t =
     Inr (CalculateCaffeineLevelAt (tracker s) t,
          s\<lparr>trace := trace s @ (if events (tracker s) = [] then [(ReadEvents, True)]
                else (ReadEvents, True) # (ReadEvents, True) # level_trace t (events (tracker s)))\<rparr>)"
  by (simp add: CalculateCaffeineLevelAt_mu_def locked_def Lock_def Unlock_def
      CalculateCaffeineLevelAt_body_def CalculateCaffeineLevelAt_def Let_def emit_def level_at_loop_mu_eq)


lemma level_trace_held: "list_all snd (level_trace t es)"
  by (induction es) simp_all

lemma level_trace_decay:
  "count_list (level_trace t es) (DecayStep, True) = length (filter (\<lambda>e. Time e \<le> t) es)"
  by (induction es) auto

lemma drink_at_mu_eq:
  "\<exists>n. drink_at_mu es t s = (drink_at es t, s\<lparr>trace := trace s @ replicate n (ReadEvents, mu s)\<rparr>)"
proof (induction es arbitrary: s)
  case Nil
  have "drink_at_mu [] t s = (drink_at [] t, s\<lparr>trace := trace s @ replicate 0 (ReadEvents, mu s)\<rparr>)"
    by simp
  then show ?case by blast
next
  case (Cons e es)
  show ?case
  proof (cases "Format_1504 (Time e) = Format_1504 t")
    case True
    then have "drink_at_mu (e # es) t s
        = (drink_at (e # es) t, s\<lparr>trace := trace s @ replicate 1 (ReadEvents, mu s)\<rparr>)"
      by (simp add: emit_def)
    then show ?thesis by blast
  next
    case False
    obtain n where n: "drink_at_mu es t (emit ReadEvents s)
        = (drink_at es t, (emit ReadEvents s)\<lparr>trace := trace (emit ReadEvents s)
             @ replicate n (ReadEvents, mu (emit ReadEvents s))\<rparr>)"
      using Cons.IH by blast
    have "drink_at_mu (e # es) t s
        = (drink_at (e # es) t, s\<lparr>trace := trace s @ replicate (Suc n) (ReadEvents, mu s)\<rparr>)"
      using False n by (simp add: emit_def)
    then show ?thesis by blast
  qed
qed

lemma forecast_point_mu_eq:
  assumes "\<not> mu s"
  shows "\<exists>new. forecast_point_mu s now i
            = Inr (forecast_point (tracker s) now i, s\<lparr>trace := trace s @ new\<rparr>)
         \<and> (ReadEvents, False) \<in> set new"
proof -
  define t where "t = Add now ((i * 30) * Minute)"
  define lv where "lv = (if events (tracker s) = [] then [(ReadEvents, True)]
                else (ReadEvents, True) # (ReadEvents, True) # level_trace t (events (tracker s)))"
  define s1 where "s1 = s\<lparr>trace := trace s @ lv\<rparr>"
  have c: "CalculateCaffeineLevelAt_mu s t = Inr (CalculateCaffeineLevelAt (tracker s) t, s1)"
    using assms by (simp add: CalculateCaffeineLevelAt_mu_eq s1_def lv_def)
  obtain n where n: "drink_at_mu (events (tracker s)) t (emit ReadEvents s1)
      = (drink_at (events (tracker s)) t,
         (emit ReadEvents s1)\<lparr>trace := trace (emit ReadEvents s1)
            @ replicate n (ReadEvents, mu (emit ReadEvents s1))\<rparr>)"
    using drink_at_mu_eq by blast
  have "forecast_point_mu s now i
      = Inr (forecast_point (tracker s) now i,
             s\<lparr>trace := trace s @ (lv @ (ReadEvents, False) # replicate n (ReadEvents, False))\<rparr>)"
    using assms n
    by (simp add: forecast_point_mu_def forecast_point_def c t_def [symmetric] Let_def
          s1_def emit_def split: prod.split)
  then show ?thesis
    by (intro exI [of _ "lv @ (ReadEvents, False) # replicate n (ReadEvents, False)"]) simp
qed

lemma forecast_loop_mu_eq:
  "\<not> mu s \<Longrightarrow>
   \<exists>new. forecast_loop_mu s now i acc
           = Inr (acc @ map (forecast_point (tracker s) now) [i..47], s\<lparr>trace := trace s @ new\<rparr>)
        \<and> (i < 48 \<longrightarrow> (ReadEvents, False) \<in> set new)"
proof (induction s now i acc rule: forecast_loop_mu.induct)
  case (1 s now i forecast)
  show ?case
  proof (cases "i < 48")
    case False
    then have "forecast_loop_mu s now i forecast
        = Inr (forecast @ map (forecast_point (tracker s) now) [i..47], s\<lparr>trace := trace s @ []\<rparr>)"
      by (subst forecast_loop_mu.simps) simp
    with False show ?thesis by blast
  next
    case True
    obtain new1 where p: "forecast_point_mu s now i
          = Inr (forecast_point (tracker s) now i, s\<lparr>trace := trace s @ new1\<rparr>)"
        and r: "(ReadEvents, False) \<in> set new1"
      using forecast_point_mu_eq [OF "1.prems"] by blast
    define s1 where "s1 = s\<lparr>trace := trace s @ new1\<rparr>"
    have m1: "\<not> mu s1" and t1: "tracker s1 = tracker s" and tr1: "trace s1 = trace s @ new1"
      using "1.prems" by (simp_all add: s1_def)
    obtain new2 where l: "forecast_loop_mu s1 now (i + 1) (forecast @ [forecast_point (tracker s) now i])
          = Inr ((forecast @ [forecast_point (tracker s) now i])
                   @ map (forecast_point (tracker s1) now) [i + 1..47],
                 s1\<lparr>trace := trace s1 @ new2\<rparr>)"
      using "1.IH" [OF True p [folded s1_def] refl m1] by blast
    have up: "[i..47] = i # [i + 1..47]"
      using True by (simp add: upto_rec1)
    have "forecast_loop_mu s now i forecast
        = Inr (forecast @ map (forecast_point (tracker s) now) [i..47],
               s\<lparr>trace := trace s @ (new1 @ new2)\<rparr>)"
      using True p l by (subst forecast_loop_mu.simps) (simp add: s1_def up)
    with r show ?thesis
      by (intro exI [of _ "new1 @ new2"]) simp
  qed
qed

lemma GenerateForecast_mu_eq:
  assumes "\<not> mu s"
  shows "\<exists>new. GenerateForecast_mu s now
            = Inr (GenerateForecast (tracker s) now, s\<lparr>trace := trace s @ new\<rparr>)
         \<and> (ReadEvents, False) \<in> set new"
  using forecast_loop_mu_eq [OF assms, of now 0 "[]"]
  by (simp add: GenerateForecast_mu_def GenerateForecast_eq)

lemma lock_discipline_violated:
  "(a, held) \<in> set tr \<Longrightarrow> held \<noteq> (a = ReadEvents \<or> a = WriteEvents) \<Longrightarrow> \<not> lock_discipline tr"
  by (auto simp: lock_discipline_def list_all_iff)

section \<open>Claims\<close>

text \<open>
  Claim C1. For an event with dose \<open>Amount e\<close> logged at \<open>Time e\<close> and a query time \<open>t\<close>
  not before it, the level loops add for this event exactly the dose times
  \<open>0.5 powr (elapsedHours / 5)\<close>, with \<open>elapsedHours = hoursBetween t (Time e)\<close>, and a
  tracker holding this event alone reports that amount. In particular one dose of 95 mg
  at \<open>t0\<close> gives the level 95 at \<open>t0\<close>, 47.5 five hours later and 23.75 ten hours later.
\<close>

theorem C1_decay_contribution:
  "(Time e \<le> t \<longrightarrow>
      level_at_loop tot t (e # es)
        = level_at_loop (tot + Amount e * 0.5 powr (hoursBetween t (Time e) / 5.0)) t es
    \<and> current_level_loop tot t (e # es)
        = current_level_loop (tot + Amount e * 0.5 powr (hoursBetween t (Time e) / 5.0)) t es
    \<and> CalculateCaffeineLevelAt \<lparr>events = [e]\<rparr> t
        = Amount e * 0.5 powr (hoursBetween t (Time e) / 5.0)
    \<and> CalculateCurrentCaffeineLevel \<lparr>events = [e]\<rparr> t
        = Amount e * 0.5 powr (hoursBetween t (Time e) / 5.0))
   \<and> CalculateCaffeineLevelAt (AddDrink NewTracker t0 95) t0 = 95
   \<and> CalculateCaffeineLevelAt (AddDrink NewTracker t0 95) (Add t0 (5 * Hour)) = 47.5
   \<and> CalculateCaffeineLevelAt (AddDrink NewTracker t0 95) (Add t0 (10 * Hour)) = 23.75"
proof -
  have step: "Time e \<le> t \<Longrightarrow> \<not> Hours (Sub t (Time e)) < 0"
    by (simp add: Hours_neg_iff Sub_neg_iff)
  have a: "CalculateCaffeineLevelAt (AddDrink NewTracker t0 95) t0 = 95"
    by (simp add: CalculateCaffeineLevelAt_sum AddDrink_def NewTracker_def
          contribution_past hoursBetween_same)
  have b: "CalculateCaffeineLevelAt (AddDrink NewTracker t0 95) (Add t0 (5 * Hour)) = 47.5"
    using hoursBetween_Add_Hours [of 5 t0]
    by (simp add: CalculateCaffeineLevelAt_sum AddDrink_def NewTracker_def
          contribution_past Add_def Hour_value)
  have c: "CalculateCaffeineLevelAt (AddDrink NewTracker t0 95) (Add t0 (10 * Hour)) = 23.75"
    using hoursBetween_Add_Hours [of 10 t0]
    by (simp add: CalculateCaffeineLevelAt_sum AddDrink_def NewTracker_def
          contribution_past Add_def Hour_value power2_eq_square)
  show ?thesis
    using a b c step
    by (simp add: hoursBetween_def Let_def halfLifeHours_def CalculateCaffeineLevelAt_def
          CalculateCurrentCaffeineLevel_def)
qed

text \<open>Claim C1 at a dose of 95 mg logged at time 0 and queried five hours later.\<close>

theorem C1_decay_contribution_witness:
  "Time \<lparr>Time = 0, Amount = 95\<rparr> \<le> 5 * Hour
   \<and> CalculateCaffeineLevelAt \<lparr>events = [\<lparr>Time = 0, Amount = 95\<rparr>]\<rparr> (5 * Hour) = 47.5"
  using C1_decay_contribution [of "\<lparr>Time = 0, Amount = 95\<rparr>" "5 * Hour"]
    hoursBetween_Add_Hours [of 5 0]
  by (simp add: Hour_value Add_def)

text \<open>
  Claim C2. For every tracker and every query time, the level returned is the sum of the
  per-event decay contributions over the events, in both level operations; with no events
  it is 0; and two doses of 95 mg at \<open>t0\<close> and one hour later give, at the time of the
  second, \<open>95 * 0.5 powr (1/5) + 95\<close>.
\<close>

theorem C2_level_is_sum_of_contributions:
  "CalculateCaffeineLevelAt tr t = (\<Sum>e\<leftarrow>events tr. contribution e t)
   \<and> CalculateCurrentCaffeineLevel tr t = (\<Sum>e\<leftarrow>events tr. contribution e t)
   \<and> CalculateCaffeineLevelAt NewTracker t = 0
   \<and> CalculateCurrentCaffeineLevel NewTracker t = 0
   \<and> CalculateCaffeineLevelAt (AddDrink (AddDrink NewTracker t0 95) (Add t0 Hour) 95) (Add t0 Hour)
       = 95 * 0.5 powr (1 / 5) + 95"
proof -
  have two: "CalculateCaffeineLevelAt (AddDrink (AddDrink NewTracker t0 95) (Add t0 Hour) 95) (Add t0 Hour)
       = 95 * 0.5 powr (1 / 5) + 95"
    using hoursBetween_Add_Hours [of 1 t0]
    by (simp add: CalculateCaffeineLevelAt_sum AddDrink_def NewTracker_def
          contribution_past hoursBetween_same Add_def Hour_value)
  show ?thesis
    using two
    by (simp add: CalculateCaffeineLevelAt_sum CalculateCurrentCaffeineLevel_sum NewTracker_def)
qed

text \<open>
  Claim C3. An event whose timestamp is strictly after the query time contributes exactly
  0: the loop leaves the running total as it is, the level of any tracker is the level
  without that event, whatever its position, and a tracker holding it alone reports 0.
  The operation is total, so such an event is no error.
\<close>

theorem C3_future_event_contributes_zero:
  "t < Time e \<longrightarrow>
     level_at_loop tot t (e # es) = level_at_loop tot t es
   \<and> CalculateCaffeineLevelAt \<lparr>events = pre @ e # post\<rparr> t
       = CalculateCaffeineLevelAt \<lparr>events = pre @ post\<rparr> t
   \<and> CalculateCaffeineLevelAt \<lparr>events = [e]\<rparr> t = 0"
  by (simp add: CalculateCaffeineLevelAt_sum level_at_loop_sum contribution_future)

text \<open>Claim C3 at an event one nanosecond after the query time.\<close>

theorem C3_future_event_contributes_zero_witness:
  "(0::int) < Time \<lparr>Time = 1, Amount = 95\<rparr>
   \<and> CalculateCaffeineLevelAt \<lparr>events = [\<lparr>Time = 1, Amount = 95\<rparr>]\<rparr> 0 = 0"
  using C3_future_event_contributes_zero [of 0 "\<lparr>Time = 1, Amount = 95\<rparr>"]
  by simp

text \<open>
  Claim C4, as stated, fails: \<^verbatim>\<open>AddDrink\<close> takes a negative amount, and the level of a
  tracker with one dose of -95 mg, queried at the time of the dose, is negative.
\<close>

theorem C4_negative_dose_counterexample:
  "\<not> 0 \<le> CalculateCaffeineLevelAt (AddDrink NewTracker 0 (- 95)) 0"
  by (simp add: CalculateCaffeineLevelAt_def AddDrink_def NewTracker_def Sub_def Hours_eq
        minDuration_def maxDuration_def)

text \<open>
  Claim C4, amended. For every tracker whose doses are all non-negative and every query
  time, the level returned is non-negative.
\<close>

theorem C4_level_nonneg:
  "(\<forall>e\<in>set (events tr). 0 \<le> Amount e) \<Longrightarrow> 0 \<le> CalculateCaffeineLevelAt tr t"
  by (auto simp: CalculateCaffeineLevelAt_sum intro!: sum_list_nonneg contribution_nonneg)

text \<open>Claim C4, amended, at one dose of 95 mg.\<close>

theorem C4_level_nonneg_witness:
  "list_all (\<lambda>e. 0 \<le> Amount e) (events (AddDrink NewTracker 0 95))
   \<and> 0 \<le> CalculateCaffeineLevelAt (AddDrink NewTracker 0 95) 7"
  using C4_level_nonneg [of "AddDrink NewTracker 0 95" 7]
  by (simp add: AddDrink_def NewTracker_def)

text \<open>
  Claim C5, as stated, fails: with a dose of -95 mg at time 0 and a dose of 95 mg
  fifteen hours later, the query times five and ten hours lie between the two
  consecutive timestamps, and the level rises from -47.5 to -23.75.
\<close>

theorem C5_negative_dose_counterexample:
  "between_consecutive_doses
     (events (AddDrink (AddDrink NewTracker 0 (- 95)) (15 * Hour) 95)) (5 * Hour) (10 * Hour)
   \<and> 5 * Hour \<le> 10 * Hour
   \<and> \<not> CalculateCaffeineLevelAt (AddDrink (AddDrink NewTracker 0 (- 95)) (15 * Hour) 95) (10 * Hour)
       \<le> CalculateCaffeineLevelAt (AddDrink (AddDrink NewTracker 0 (- 95)) (15 * Hour) 95) (5 * Hour)"
  by (simp add: between_consecutive_doses_def AddDrink_def NewTracker_def Hour_value
        CalculateCaffeineLevelAt_def Sub_def Hours_eq minDuration_def maxDuration_def
        power2_eq_square)

text \<open>
  Claim C5, amended. For every tracker whose doses are all non-negative and every pair
  of query times \<open>t1 \<le> t2\<close> lying strictly between the same two consecutive event
  timestamps, the level at \<open>t2\<close> is at most the level at \<open>t1\<close>.
\<close>

theorem C5_level_nonincreasing_between_doses:
  assumes "\<forall>e\<in>set (events tr). 0 \<le> Amount e"
    and "between_consecutive_doses (events tr) t1 t2"
    and "t1 \<le> t2"
  shows "CalculateCaffeineLevelAt tr t2 \<le> CalculateCaffeineLevelAt tr t1"
proof -
  obtain a b :: CoffeeIntakeEvent where ab: "Time a < t1" "t2 < Time b"
      "\<forall>e\<in>set (events tr). \<not> (Time a < Time e \<and> Time e < Time b)"
    using assms(2) by (auto simp: between_consecutive_doses_def)
  have "contribution e t2 \<le> contribution e t1" if "e \<in> set (events tr)" for e
  proof -
    have "Time e \<le> t1 \<or> t2 < Time e"
      using ab that by force
    then show ?thesis
      using assms(1,3) that by (simp add: contribution_antimono)
  qed
  then show ?thesis
    by (simp add: CalculateCaffeineLevelAt_sum sum_list_mono)
qed

text \<open>Claim C5, amended, at doses of 95 mg at time 0 and fifteen hours later.\<close>

theorem C5_level_nonincreasing_between_doses_witness:
  "list_all (\<lambda>e. 0 \<le> Amount e) (events (AddDrink (AddDrink NewTracker 0 95) (15 * Hour) 95))
   \<and> between_consecutive_doses
       (events (AddDrink (AddDrink NewTracker 0 95) (15 * Hour) 95)) (5 * Hour) (10 * Hour)
   \<and> 5 * Hour \<le> 10 * Hour
   \<and> CalculateCaffeineLevelAt (AddDrink (AddDrink NewTracker 0 95) (15 * Hour) 95) (10 * Hour)
       \<le> CalculateCaffeineLevelAt (AddDrink (AddDrink NewTracker 0 95) (15 * Hour) 95) (5 * Hour)"
proof -
  have h1: "\<forall>e\<in>set (events (AddDrink (AddDrink NewTracker 0 95) (15 * Hour) 95)). 0 \<le> Amount e"
    by (simp add: AddDrink_def NewTracker_def)
  have h2: "between_consecutive_doses
     (events (AddDrink (AddDrink NewTracker 0 95) (15 * Hour) 95)) (5 * Hour) (10 * Hour)"
    by (simp add: between_consecutive_doses_def AddDrink_def NewTracker_def Hour_value)
  have h3: "5 * Hour \<le> 10 * Hour"
    by (simp add: Hour_value)
  show ?thesis
    using h1 h2 h3 C5_level_nonincreasing_between_doses [OF h1 h2 h3]
    by (simp add: list_all_iff)
qed

text \<open>
  Claim C6. For every tracker and every clock reading \<open>now\<close>, the forecast has exactly 48
  points, point \<open>i\<close> has the time \<open>now\<close> plus \<open>i\<close> times 30 minutes, consecutive points
  are 30 minutes apart, and the first point is at \<open>now\<close>.
\<close>

theorem C6_forecast_length_and_spacing:
  "length (GenerateForecast tr now) = 48
   \<and> (\<forall>i<48. PointTime (GenerateForecast tr now ! i) = Add now (int (i * 30) * Minute))
   \<and> (\<forall>i<47. PointTime (GenerateForecast tr now ! (i + 1))
                - PointTime (GenerateForecast tr now ! i) = 30 * Minute)
   \<and> PointTime (GenerateForecast tr now ! 0) = now"
  by (simp add: GenerateForecast_length GenerateForecast_nth PointTime_forecast_point
        Add_def algebra_simps)

text \<open>Claim C6 at the empty tracker and the clock reading 0, for the points 0 and 1.\<close>

theorem C6_forecast_length_and_spacing_witness:
  "(1::nat) < 48 \<and> PointTime (GenerateForecast NewTracker 0 ! 1) = 1800000000000
   \<and> (0::nat) < 47
   \<and> PointTime (GenerateForecast NewTracker 0 ! (0 + 1))
       - PointTime (GenerateForecast NewTracker 0 ! 0) = 1800000000000"
  using C6_forecast_length_and_spacing [of NewTracker 0]
  by (simp add: Add_def Minute_def Second_def)

text \<open>
  Claim C7 says that a forecast point is flagged exactly when some event lies in the same
  minute as the sample time. The code compares the hour and the minute of the day only.
  With one dose of 95 mg logged at time 0 (midnight) and a forecast made thirty minutes
  later, point 47 is at midnight of the next day: no event lies in that minute, yet the
  point is flagged and carries the amount 95.
\<close>

theorem C7_flag_ignores_the_date:
  "events (AddDrink NewTracker 0 95) = [\<lparr>Time = 0, Amount = 95\<rparr>]
   \<and> PointTime (GenerateForecast (AddDrink NewTracker 0 95) (30 * Minute) ! 47) = 24 * Hour
   \<and> Truncate_Minute 0 \<noteq> Truncate_Minute (24 * Hour)
   \<and> HasDrink (GenerateForecast (AddDrink NewTracker 0 95) (30 * Minute) ! 47)
   \<and> DrinkAmount (GenerateForecast (AddDrink NewTracker 0 95) (30 * Minute) ! 47) = 95"
proof -
  have ev: "events (AddDrink NewTracker 0 95) = [\<lparr>Time = 0, Amount = 95\<rparr>]"
    by (simp add: AddDrink_def NewTracker_def)
  have tgt: "Add (30 * Minute) ((47 * 30) * Minute) = 24 * Hour"
    by (simp add: Add_def Hour_def)
  have f0: "Format_1504 0 = ''00:00''"
    using Format_1504_of_seconds [of 0 0 0 0 0] by (simp add: digit_def)
  have f24: "Format_1504 (24 * Hour) = ''00:00''"
    using Format_1504_of_seconds [of "24 * Hour" 86400 0 0 0] Second_pos
    by (simp add: digit_def Hour_def Minute_def)
  have d: "drink_at [\<lparr>Time = 0, Amount = 95\<rparr>] (24 * Hour) = (True, 95)"
    by (simp add: f0 f24)
  have tr: "Truncate_Minute 0 \<noteq> Truncate_Minute (24 * Hour)"
    using Minute_pos by (simp add: Truncate_Minute_def Hour_def)
  have n: "GenerateForecast (AddDrink NewTracker 0 95) (30 * Minute) ! 47
             = forecast_point (AddDrink NewTracker 0 95) (30 * Minute) 47"
    using GenerateForecast_nth [of 47 "AddDrink NewTracker 0 95" "30 * Minute"] by simp
  show ?thesis
    unfolding n HasDrink_forecast_point DrinkAmount_forecast_point PointTime_forecast_point
      ev tgt d
    using tr by simp
qed

text \<open>
  Claim C8. For every tracker and every clock reading \<open>now\<close>, the current-level operation
  returns what the level-at-time operation returns at \<open>now\<close>.
\<close>

theorem C8_current_level_is_level_at_now:
  "CalculateCurrentCaffeineLevel tr now = CalculateCaffeineLevelAt tr now"
  by (simp add: CalculateCurrentCaffeineLevel_sum CalculateCaffeineLevelAt_sum)

text \<open>
  Claim C9, as stated, fails. With one dose of 95 mg in the tracker and the mutex
  released, \<^verbatim>\<open>CalculateCaffeineLevelAt\<close> computes the decay while it holds the mutex, the
  \<^verbatim>\<open>Printf\<close> of \<^verbatim>\<open>AddDrink\<close> runs while it holds the mutex, and \<^verbatim>\<open>GenerateForecast\<close> reads
  the event sequence with the mutex released.
\<close>

theorem C9_lock_discipline_counterexample:
  "(DecayStep, True) \<in> set (trace (snd (projr (CalculateCaffeineLevelAt_mu
        \<lparr>mu = False, tracker = AddDrink NewTracker 0 95, trace = []\<rparr> 0))))
   \<and> \<not> lock_discipline (trace (snd (projr (CalculateCaffeineLevelAt_mu
        \<lparr>mu = False, tracker = AddDrink NewTracker 0 95, trace = []\<rparr> 0))))
   \<and> (Print, True) \<in> set (trace (snd (projr (AddDrink_mu NewTracker_mu 0 95))))
   \<and> \<not> lock_discipline (trace (snd (projr (AddDrink_mu NewTracker_mu 0 95))))
   \<and> (ReadEvents, False) \<in> set (trace (snd (projr (GenerateForecast_mu
        \<lparr>mu = False, tracker = AddDrink NewTracker 0 95, trace = []\<rparr> 0))))
   \<and> \<not> lock_discipline (trace (snd (projr (GenerateForecast_mu
        \<lparr>mu = False, tracker = AddDrink NewTracker 0 95, trace = []\<rparr> 0))))"
proof -
  define s0 where "s0 = \<lparr>mu = False, tracker = AddDrink NewTracker 0 95, trace = []\<rparr>"
  have m: "\<not> mu s0" "\<not> mu NewTracker_mu"
    by (simp_all add: s0_def NewTracker_mu_def)
  have lv: "trace (snd (projr (CalculateCaffeineLevelAt_mu s0 0)))
      = [(ReadEvents, True), (ReadEvents, True), (ReadEvents, True), (DecayStep, True)]"
    by (simp add: CalculateCaffeineLevelAt_mu_eq [OF m(1)]) (simp add: s0_def AddDrink_def NewTracker_def)
  have ad: "trace (snd (projr (AddDrink_mu NewTracker_mu 0 95)))
      = [(ReadEvents, True), (WriteEvents, True), (ReadEvents, True), (Print, True)]"
    by (simp add: AddDrink_mu_eq [OF m(2)]) (simp add: NewTracker_mu_def)
  obtain new where "GenerateForecast_mu s0 0
        = Inr (GenerateForecast (tracker s0) 0, s0\<lparr>trace := trace s0 @ new\<rparr>)"
      and "(ReadEvents, False) \<in> set new"
    using GenerateForecast_mu_eq [OF m(1)] by blast
  then have gf: "(ReadEvents, False) \<in> set (trace (snd (projr (GenerateForecast_mu s0 0))))"
    by simp
  have "\<not> lock_discipline (trace (snd (projr (CalculateCaffeineLevelAt_mu s0 0))))"
    by (rule lock_discipline_violated [of DecayStep True]) (simp_all add: lv)
  moreover have "\<not> lock_discipline (trace (snd (projr (AddDrink_mu NewTracker_mu 0 95))))"
    by (rule lock_discipline_violated [of Print True]) (simp_all add: ad)
  moreover have "\<not> lock_discipline (trace (snd (projr (GenerateForecast_mu s0 0))))"
    by (rule lock_discipline_violated [OF gf]) simp
  ultimately show ?thesis
    using gf by (simp add: lv ad s0_def [symmetric])
qed

text \<open>
  Claim C9, amended. Run from a released mutex, each of \<^verbatim>\<open>AddDrink\<close>,
  \<^verbatim>\<open>CalculateCaffeineLevelAt\<close> and \<^verbatim>\<open>GetEvents\<close> returns with the mutex released again,
  and everything it does is done while the mutex is held: in \<^verbatim>\<open>AddDrink\<close> the append and
  the print, in \<^verbatim>\<open>CalculateCaffeineLevelAt\<close> the reads of the event sequence and one
  decay computation for each event not after the query time, in \<^verbatim>\<open>GetEvents\<close> the read of
  the sequence. So every mutation and every read of the event sequence by these three
  operations is under the mutex, and the decay computation is under it too, over the
  sequence itself.
\<close>

theorem C9_lock_held_through_each_operation:
  "\<not> mu s \<longrightarrow>
     (\<exists>s' new. AddDrink_mu s now amount = Inr ((), s') \<and> \<not> mu s'
         \<and> tracker s' = AddDrink (tracker s) now amount
         \<and> trace s' = trace s @ new \<and> list_all snd new
         \<and> (WriteEvents, True) \<in> set new \<and> (Print, True) \<in> set new)
   \<and> (\<exists>s' new. CalculateCaffeineLevelAt_mu s t = Inr (CalculateCaffeineLevelAt (tracker s) t, s')
         \<and> \<not> mu s' \<and> tracker s' = tracker s
         \<and> trace s' = trace s @ new \<and> list_all snd new
         \<and> (ReadEvents, True) \<in> set new
         \<and> count_list new (DecayStep, True)
              = length (filter (\<lambda>e. Time e \<le> t) (events (tracker s))))
   \<and> (\<exists>s' new. GetEvents_mu s = Inr (GetEvents (tracker s), s') \<and> \<not> mu s'
         \<and> tracker s' = tracker s
         \<and> trace s' = trace s @ new \<and> list_all snd new \<and> (ReadEvents, True) \<in> set new)"
proof
  assume m: "\<not> mu s"
  have a: "\<exists>s' new. AddDrink_mu s now amount = Inr ((), s') \<and> \<not> mu s'
         \<and> tracker s' = AddDrink (tracker s) now amount
         \<and> trace s' = trace s @ new \<and> list_all snd new
         \<and> (WriteEvents, True) \<in> set new \<and> (Print, True) \<in> set new"
    using m by (simp add: AddDrink_mu_eq)
  have b: "\<exists>s' new. CalculateCaffeineLevelAt_mu s t = Inr (CalculateCaffeineLevelAt (tracker s) t, s')
         \<and> \<not> mu s' \<and> tracker s' = tracker s
         \<and> trace s' = trace s @ new \<and> list_all snd new
         \<and> (ReadEvents, True) \<in> set new
         \<and> count_list new (DecayStep, True)
              = length (filter (\<lambda>e. Time e \<le> t) (events (tracker s)))"
    using m by (simp add: CalculateCaffeineLevelAt_mu_eq level_trace_held level_trace_decay)
  have c: "\<exists>s' new. GetEvents_mu s = Inr (GetEvents (tracker s), s') \<and> \<not> mu s'
         \<and> tracker s' = tracker s
         \<and> trace s' = trace s @ new \<and> list_all snd new \<and> (ReadEvents, True) \<in> set new"
    using m by (simp add: GetEvents_mu_eq)
  show "(\<exists>s' new. AddDrink_mu s now amount = Inr ((), s') \<and> \<not> mu s'
         \<and> tracker s' = AddDrink (tracker s) now amount
         \<and> trace s' = trace s @ new \<and> list_all snd new
         \<and> (WriteEvents, True) \<in> set new \<and> (Print, True) \<in> set new)
   \<and> (\<exists>s' new. CalculateCaffeineLevelAt_mu s t = Inr (CalculateCaffeineLevelAt (tracker s) t, s')
         \<and> \<not> mu s' \<and> tracker s' = tracker s
         \<and> trace s' = trace s @ new \<and> list_all snd new
         \<and> (ReadEvents, True) \<in> set new
         \<and> count_list new (DecayStep, True)
              = length (filter (\<lambda>e. Time e \<le> t) (events (tracker s))))
   \<and> (\<exists>s' new. GetEvents_mu s = Inr (GetEvents (tracker s), s') \<and> \<not> mu s'
         \<and> tracker s' = tracker s
         \<and> trace s' = trace s @ new \<and> list_all snd new \<and> (ReadEvents, True) \<in> set new)"
    using a b c by blast
qed

text \<open>Claim C9, amended, at a tracker with one dose of 95 mg at time 0 and a released mutex.\<close>

theorem C9_lock_held_through_each_operation_witness:
  "\<not> mu \<lparr>mu = False, tracker = AddDrink NewTracker 0 95, trace = []\<rparr>
   \<and> \<not> isl (AddDrink_mu \<lparr>mu = False, tracker = AddDrink NewTracker 0 95, trace = []\<rparr> 7 95)
   \<and> \<not> mu (snd (projr (AddDrink_mu
          \<lparr>mu = False, tracker = AddDrink NewTracker 0 95, trace = []\<rparr> 7 95)))
   \<and> list_all snd (trace (snd (projr (AddDrink_mu
          \<lparr>mu = False, tracker = AddDrink NewTracker 0 95, trace = []\<rparr> 7 95))))
   \<and> (WriteEvents, True) \<in> set (trace (snd (projr (AddDrink_mu
          \<lparr>mu = False, tracker = AddDrink NewTracker 0 95, trace = []\<rparr> 7 95))))
   \<and> \<not> isl (CalculateCaffeineLevelAt_mu
          \<lparr>mu = False, tracker = AddDrink NewTracker 0 95, trace = []\<rparr> 7)
   \<and> list_all snd (trace (snd (projr (CalculateCaffeineLevelAt_mu
          \<lparr>mu = False, tracker = AddDrink NewTracker 0 95, trace = []\<rparr> 7))))
   \<and> count_list (trace (snd (projr (CalculateCaffeineLevelAt_mu
          \<lparr>mu = False, tracker = AddDrink NewTracker 0 95, trace = []\<rparr> 7)))) (DecayStep, True) = 1
   \<and> \<not> isl (GetEvents_mu \<lparr>mu = False, tracker = AddDrink NewTracker 0 95, trace = []\<rparr>)
   \<and> list_all snd (trace (snd (projr (GetEvents_mu
          \<lparr>mu = False, tracker = AddDrink NewTracker 0 95, trace = []\<rparr>))))"
proof -
  define s0 where "s0 = \<lparr>mu = False, tracker = AddDrink NewTracker 0 95, trace = []\<rparr>"
  have m: "\<not> mu s0" and e: "trace s0 = []"
    and n: "length (filter (\<lambda>e. Time e \<le> 7) (events (tracker s0))) = 1"
    by (simp_all add: s0_def AddDrink_def NewTracker_def)
  have ?thesis
    unfolding s0_def [symmetric]
    using m e n C9_lock_held_through_each_operation [of s0 7 95 7]
    by auto
  then show ?thesis .
qed

text \<open>
  Claim C10. Logging a dose that is not negative, at any clock reading, never lowers the
  level reported for any query time.
\<close>

theorem C10_nonneg_dose_never_lowers_level:
  "0 \<le> amount \<longrightarrow>
     CalculateCaffeineLevelAt tr t \<le> CalculateCaffeineLevelAt (AddDrink tr now amount) t"
  using contribution_nonneg [of "\<lparr>Time = now, Amount = amount\<rparr>" t]
  by (simp add: CalculateCaffeineLevelAt_sum AddDrink_def)

text \<open>Claim C10 at the empty tracker and a dose of 95 mg at time 0, queried at time 3.\<close>

theorem C10_nonneg_dose_never_lowers_level_witness:
  "(0::real) \<le> 95
   \<and> CalculateCaffeineLevelAt NewTracker 3 \<le> CalculateCaffeineLevelAt (AddDrink NewTracker 0 95) 3"
  using C10_nonneg_dose_never_lowers_level [of 95 NewTracker 3 0]
  by simp

end
